theory Spec2Isabelle
  imports Main "HOL-Library.Sublist"
begin

section \<open>The financial advisory workflow of fin_agents.py\<close>

text \<open>
  The module builds four specialist agents and one coordinator and chains them in a
  LangGraph \<open>StateGraph\<close>. The agents and the language model are external services:
  they are parameters of the model (\<open>collaborators\<close>), and every call to them is
  recorded, with its outcome, in a log of events. An exception is a value \<open>Inl e\<close>.
  The \<open>print\<close> calls of the source carry no state and are left out.
\<close>

subsection \<open>Data\<close>

text \<open>Messages of langchain_core; only \<open>content\<close> is read by this module.\<close>

datatype message =
    HumanMessage (content: string)
  | AIMessage (content: string)
  | SystemMessage (content: string)

text \<open>What an agent's \<open>invoke\<close> returns: a dict with the key \<open>messages\<close>.\<close>

datatype response = Response (messages: "message list")

text \<open>The four agents that \<open>setup_agents\<close> stores on the object.\<close>

datatype agent =
    portfolio_agent
  | budget_agent
  | market_research_agent
  | risk_assessment_agent

text \<open>
  Exceptions: \<open>KeyError\<close> of a dict subscript, \<open>IndexError\<close> of a list subscript,
  \<open>External\<close> for whatever an agent or the language model raises, and the two failures
  of the graph library (\<open>ValueError\<close> for an unknown node or a missing entry point,
  \<open>GraphRecursionError\<close> for a run longer than the recursion limit). \<open>FanOut\<close> marks a
  node with several outgoing edges, which the library would run in parallel and which
  this model does not cover.
\<close>

datatype exn =
    KeyError string
  | IndexError
  | External string
  | ValueError
  | GraphRecursionError
  | FanOut

text \<open>
  The log. \<open>Enter n\<close>: the graph calls the node named \<open>n\<close>. \<open>AgentCall a t i r\<close>:
  agent \<open>a\<close> is invoked with thread id \<open>t\<close> and instruction \<open>i\<close>, and returns or
  raises \<open>r\<close>. \<open>LlmCall p r\<close>: the language model is invoked with prompt \<open>p\<close>.
  \<open>Write k v\<close>: the assignment \<open>state[k] = v\<close>.
\<close>

datatype event =
    Enter string
  | AgentCall agent string string "exn + response"
  | LlmCall string "exn + message"
  | Write string string

text \<open>
  The external services. Their answer may depend on everything that happened before
  (the log so far), which covers both memory and nondeterminism.
\<close>

record collaborators =
  agent_invoke :: "event list \<Rightarrow> agent \<Rightarrow> string \<Rightarrow> string \<Rightarrow> exn + response"
  llm_invoke :: "event list \<Rightarrow> string \<Rightarrow> exn + message"

text \<open>\<open>FinanceState\<close> is a TypedDict, a dict from field names to strings at run time.\<close>

type_synonym FinanceState = "string \<rightharpoonup> string"

type_synonym 'a outcome = "(exn + 'a) \<times> event list"

type_synonym node_fun = "collaborators \<Rightarrow> FinanceState \<Rightarrow> event list \<Rightarrow> FinanceState outcome"

subsection \<open>Dict and list access\<close>

definition getitem :: "FinanceState \<Rightarrow> string \<Rightarrow> exn + string" where
  "getitem d k = (case d k of None \<Rightarrow> Inl (KeyError k) | Some v \<Rightarrow> Inr v)"

definition dict_get :: "FinanceState \<Rightarrow> string \<Rightarrow> string \<Rightarrow> string" where
  "dict_get d k dflt = (case d k of None \<Rightarrow> dflt | Some v \<Rightarrow> v)"

text \<open>\<open>xs[-1]\<close>: the last element, IndexError on the empty list.\<close>

definition last_item :: "'a list \<Rightarrow> exn + 'a" where
  "last_item xs = (if xs = [] then Inl IndexError else Inr (last xs))"

subsection \<open>The specialist nodes\<close>

text \<open>
  The four specialist nodes have the same body and differ in the agent, the thread id
  of the config, the prefix of the instruction and the key they assign. The subscript
  \<open>state['query']\<close> is evaluated before the call.
\<close>

definition specialist_node ::
  "agent \<Rightarrow> string \<Rightarrow> string \<Rightarrow> string \<Rightarrow> node_fun" where
  "specialist_node a thread_id prefix_text slot env state tr =
     (case getitem state ''query'' of
        Inl e \<Rightarrow> (Inl e, tr)
      | Inr q \<Rightarrow>
          (let instruction = prefix_text @ q;
               r = agent_invoke env tr a thread_id instruction;
               tr1 = tr @ [AgentCall a thread_id instruction r]
           in case r of
                Inl e \<Rightarrow> (Inl e, tr1)
              | Inr resp \<Rightarrow>
                  (case last_item (messages resp) of
                     Inl e \<Rightarrow> (Inl e, tr1)
                   | Inr m \<Rightarrow>
                       (Inr (state(slot \<mapsto> content m)), tr1 @ [Write slot (content m)]))))"

definition portfolio_analysis_node :: node_fun where
  "portfolio_analysis_node =
     specialist_node portfolio_agent ''portfolio_agent'' ''Analyze this request: ''
       ''portfolio_analysis''"

definition budget_analysis_node :: node_fun where
  "budget_analysis_node =
     specialist_node budget_agent ''budget_agent'' ''Analyze this request: ''
       ''budget_analysis''"

definition market_research_node :: node_fun where
  "market_research_node =
     specialist_node market_research_agent ''market_agent'' ''Research this request: ''
       ''market_data''"

definition risk_assessment_node :: node_fun where
  "risk_assessment_node =
     specialist_node risk_assessment_agent ''risk_agent'' ''Assess risks for: ''
       ''risk_assessment''"

subsection \<open>The coordinator\<close>

text \<open>
  The f-string of \<open>coordinator_node\<close> as a function of the five values it embeds, line
  by line (each line of the source is indented by 8 blanks).
\<close>

definition render_prompt :: "string \<Rightarrow> string \<Rightarrow> string \<Rightarrow> string \<Rightarrow> string \<Rightarrow> string" where
  "render_prompt query portfolio budget market risk =
     ''\<newline>''
     @ ''        As a senior financial advisor, synthesize the following analyses into a comprehensive recommendation:\<newline>''
     @ ''        \<newline>''
     @ ''        Original Query: '' @ query @ ''\<newline>''
     @ ''        \<newline>''
     @ ''        Portfolio Analysis: '' @ portfolio @ ''\<newline>''
     @ ''        Budget Analysis: '' @ budget @ ''\<newline>''
     @ ''        Market Research: '' @ market @ ''\<newline>''
     @ ''        Risk Assessment: '' @ risk @ ''\<newline>''
     @ ''        \<newline>''
     @ ''        Provide a clear, actionable financial recommendation with:\<newline>''
     @ ''        1. Summary of key findings\<newline>''
     @ ''        2. Specific action steps\<newline>''
     @ ''        3. Risk considerations\<newline>''
     @ ''        4. Timeline for implementation\<newline>''
     @ ''        ''"

text \<open>
  The values are \<open>state['query']\<close> and \<open>state.get(key, 'N/A')\<close> for the four analyses,
  in the order in which the f-string evaluates them.
\<close>

definition coordinator_prompt :: "FinanceState \<Rightarrow> exn + string" where
  "coordinator_prompt state =
     (case getitem state ''query'' of
        Inl e \<Rightarrow> Inl e
      | Inr q \<Rightarrow>
          Inr (render_prompt q
                 (dict_get state ''portfolio_analysis'' ''N/A'')
                 (dict_get state ''budget_analysis'' ''N/A'')
                 (dict_get state ''market_data'' ''N/A'')
                 (dict_get state ''risk_assessment'' ''N/A'')))"

definition coordinator_node :: node_fun where
  "coordinator_node env state tr =
     (case coordinator_prompt state of
        Inl e \<Rightarrow> (Inl e, tr)
      | Inr prompt \<Rightarrow>
          (let r = llm_invoke env tr prompt;
               tr1 = tr @ [LlmCall prompt r]
           in case r of
                Inl e \<Rightarrow> (Inl e, tr1)
              | Inr m \<Rightarrow>
                  (Inr (state(''final_recommendation'' \<mapsto> content m)),
                   tr1 @ [Write ''final_recommendation'' (content m)])))"

subsection \<open>The graph\<close>

text \<open>
  A \<open>StateGraph\<close> as this module uses it: named nodes, an entry point and plain edges.
  \<open>END\<close> is the library's name of the terminal pseudo-node.
\<close>

record StateGraph =
  nodes :: "(string \<times> node_fun) list"
  entry_point :: "string option"
  edges :: "(string \<times> string) list"

definition END :: string where
  "END = ''__end__''"

definition new_graph :: StateGraph where
  "new_graph = \<lparr>nodes = [], entry_point = None, edges = []\<rparr>"

definition add_node :: "string \<Rightarrow> node_fun \<Rightarrow> StateGraph \<Rightarrow> StateGraph" where
  "add_node name f g = g\<lparr>nodes := nodes g @ [(name, f)]\<rparr>"

definition set_entry_point :: "string \<Rightarrow> StateGraph \<Rightarrow> StateGraph" where
  "set_entry_point name g = g\<lparr>entry_point := Some name\<rparr>"

definition add_edge :: "string \<Rightarrow> string \<Rightarrow> StateGraph \<Rightarrow> StateGraph" where
  "add_edge a b g = g\<lparr>edges := edges g @ [(a, b)]\<rparr>"

definition successors :: "StateGraph \<Rightarrow> string \<Rightarrow> string list" where
  "successors g n = map snd (filter (\<lambda>e. fst e = n) (edges g))"

definition create_workflow :: StateGraph where
  "create_workflow =
     (let workflow = new_graph;
          workflow = add_node ''portfolio_analysis'' portfolio_analysis_node workflow;
          workflow = add_node ''budget_analysis'' budget_analysis_node workflow;
          workflow = add_node ''market_research'' market_research_node workflow;
          workflow = add_node ''risk_assessment'' risk_assessment_node workflow;
          workflow = add_node ''coordinator'' coordinator_node workflow;
          workflow = set_entry_point ''portfolio_analysis'' workflow;
          workflow = add_edge ''portfolio_analysis'' ''budget_analysis'' workflow;
          workflow = add_edge ''budget_analysis'' ''market_research'' workflow;
          workflow = add_edge ''market_research'' ''risk_assessment'' workflow;
          workflow = add_edge ''risk_assessment'' ''coordinator'' workflow;
          workflow = add_edge ''coordinator'' END workflow
      in workflow)"

text \<open>
  Running a graph from a node: call the node, stop on an exception, otherwise follow
  its edge. The first argument counts the steps that are left.
\<close>

fun run_from ::
  "nat \<Rightarrow> StateGraph \<Rightarrow> collaborators \<Rightarrow> string \<Rightarrow> FinanceState \<Rightarrow> event list
     \<Rightarrow> FinanceState outcome" where
  "run_from 0 g env cur state tr = (Inl GraphRecursionError, tr)"
| "run_from (Suc n) g env cur state tr =
     (case map_of (nodes g) cur of
        None \<Rightarrow> (Inl ValueError, tr)
      | Some f \<Rightarrow>
          (case f env state (tr @ [Enter cur]) of
             (Inl e, tr') \<Rightarrow> (Inl e, tr')
           | (Inr state', tr') \<Rightarrow>
               (case successors g cur of
                  [] \<Rightarrow> (Inr state', tr')
                | [nxt] \<Rightarrow>
                    (if nxt = END then (Inr state', tr')
                     else run_from n g env nxt state' tr')
                | _ \<Rightarrow> (Inl FanOut, tr'))))"

text \<open>The library's default recursion limit.\<close>

definition recursion_limit :: nat where
  "recursion_limit = 25"

definition graph_invoke ::
  "StateGraph \<Rightarrow> collaborators \<Rightarrow> FinanceState \<Rightarrow> event list \<Rightarrow> FinanceState outcome" where
  "graph_invoke g env state tr =
     (case entry_point g of
        None \<Rightarrow> (Inl ValueError, tr)
      | Some n \<Rightarrow> run_from recursion_limit g env n state tr)"

subsection \<open>The entry point\<close>

definition initial_state :: "string \<Rightarrow> FinanceState" where
  "initial_state query =
     [''query'' \<mapsto> query,
      ''user_profiles'' \<mapsto> '''',
      ''market_data'' \<mapsto> '''',
      ''portfolio_analysis'' \<mapsto> '''',
      ''budget_analysis'' \<mapsto> '''',
      ''risk_assessment'' \<mapsto> '''',
      ''final_recommendation'' \<mapsto> '''']"

definition get_financial_advice ::
  "collaborators \<Rightarrow> string \<Rightarrow> event list \<Rightarrow> string outcome" where
  "get_financial_advice env query tr =
     (let app = create_workflow in
      case graph_invoke app env (initial_state query) tr of
        (Inl e, tr') \<Rightarrow> (Inl e, tr')
      | (Inr final_state, tr') \<Rightarrow> (getitem final_state ''final_recommendation'', tr'))"

subsection \<open>Reading the log\<close>

text \<open>The events a call appended to the log \<open>tr\<close> it started from.\<close>

definition new_events :: "event list \<Rightarrow> event list \<Rightarrow> event list" where
  "new_events tr tr' = drop (length tr) tr'"

fun entered :: "event list \<Rightarrow> string list" where
  "entered [] = []"
| "entered (Enter n # es) = n # entered es"
| "entered (_ # es) = entered es"

fun agent_calls :: "event list \<Rightarrow> (agent \<times> string \<times> string) list" where
  "agent_calls [] = []"
| "agent_calls (AgentCall a t i r # es) = (a, t, i) # agent_calls es"
| "agent_calls (_ # es) = agent_calls es"

fun llm_calls :: "event list \<Rightarrow> (string \<times> (exn + message)) list" where
  "llm_calls [] = []"
| "llm_calls (LlmCall p r # es) = (p, r) # llm_calls es"
| "llm_calls (_ # es) = llm_calls es"

fun written_keys :: "event list \<Rightarrow> string list" where
  "written_keys [] = []"
| "written_keys (Write k v # es) = k # written_keys es"
| "written_keys (_ # es) = written_keys es"

text \<open>
  The keys assigned while the node \<open>s\<close> is running: the \<open>Write\<close> events between
  \<open>Enter s\<close> and the next \<open>Enter\<close>. The second argument is the node that is running.
\<close>

fun slots_written_in :: "string \<Rightarrow> string option \<Rightarrow> event list \<Rightarrow> string list" where
  "slots_written_in s cur [] = []"
| "slots_written_in s cur (Enter n # es) = slots_written_in s (Some n) es"
| "slots_written_in s cur (Write k v # es) =
     (if cur = Some s then k # slots_written_in s cur es else slots_written_in s cur es)"
| "slots_written_in s cur (_ # es) = slots_written_in s cur es"

definition slots_written :: "string \<Rightarrow> event list \<Rightarrow> string list" where
  "slots_written s es = slots_written_in s None es"

subsection \<open>Stand-ins for the external services\<close>

text \<open>
  Every agent echoes the instruction and answers with one fixed letter; the language
  model answers \<open>ADVICE\<close>.
\<close>

definition stub_env :: collaborators where
  "stub_env =
     \<lparr>agent_invoke = (\<lambda>tr a t i. Inr (Response [HumanMessage i, AIMessage
          (case a of portfolio_agent \<Rightarrow> ''P'' | budget_agent \<Rightarrow> ''B''
           | market_research_agent \<Rightarrow> ''M'' | risk_assessment_agent \<Rightarrow> ''R'')])),
      llm_invoke = (\<lambda>tr p. Inr (AIMessage ''ADVICE''))\<rparr>"

text \<open>As \<open>stub_env\<close>, but the market research agent raises.\<close>

definition raising_env :: collaborators where
  "raising_env =
     stub_env\<lparr>agent_invoke := (\<lambda>tr a t i.
        if a = market_research_agent then Inl (External ''timeout'')
        else agent_invoke stub_env tr a t i)\<rparr>"

text \<open>As \<open>stub_env\<close>, but the budget agent returns no message at all.\<close>

definition silent_env :: collaborators where
  "silent_env =
     stub_env\<lparr>agent_invoke := (\<lambda>tr a t i.
        if a = budget_agent then Inr (Response [])
        else agent_invoke stub_env tr a t i)\<rparr>"

text \<open>Sequencing of two steps on the state: the second runs unless the first raised.\<close>

definition and_then ::
  "FinanceState outcome \<Rightarrow> (FinanceState \<Rightarrow> event list \<Rightarrow> FinanceState outcome)
     \<Rightarrow> FinanceState outcome" where
  "and_then r k = (case r of (Inl e, tr) \<Rightarrow> (Inl e, tr) | (Inr state, tr) \<Rightarrow> k state tr)"

section \<open>Properties\<close>

subsection \<open>The graph is a chain\<close>

lemma create_workflow_nodes:
  "nodes create_workflow =
     [(''portfolio_analysis'', portfolio_analysis_node),
      (''budget_analysis'', budget_analysis_node),
      (''market_research'', market_research_node),
      (''risk_assessment'', risk_assessment_node),
      (''coordinator'', coordinator_node)]"
  by (simp add: create_workflow_def new_graph_def add_node_def add_edge_def set_entry_point_def)

lemma create_workflow_entry: "entry_point create_workflow = Some ''portfolio_analysis''"
  by (simp add: create_workflow_def new_graph_def add_node_def add_edge_def set_entry_point_def)

lemma create_workflow_edges:
  "edges create_workflow =
     [(''portfolio_analysis'', ''budget_analysis''),
      (''budget_analysis'', ''market_research''),
      (''market_research'', ''risk_assessment''),
      (''risk_assessment'', ''coordinator''),
      (''coordinator'', END)]"
  by (simp add: create_workflow_def new_graph_def add_node_def add_edge_def set_entry_point_def)

lemma create_workflow_successors:
  "successors create_workflow ''portfolio_analysis'' = [''budget_analysis'']"
  "successors create_workflow ''budget_analysis'' = [''market_research'']"
  "successors create_workflow ''market_research'' = [''risk_assessment'']"
  "successors create_workflow ''risk_assessment'' = [''coordinator'']"
  "successors create_workflow ''coordinator'' = [END]"
  by (simp_all add: successors_def create_workflow_edges)

lemma run_from_Suc_known:
  assumes "map_of (nodes g) cur = Some f" and "successors g cur = [nxt]"
  shows "run_from (Suc n) g env cur state tr =
     and_then (f env state (tr @ [Enter cur]))
       (\<lambda>state' tr'. if nxt = END then (Inr state', tr') else run_from n g env nxt state' tr')"
  using assms by (simp add: and_then_def split: prod.splits sum.splits)

lemma graph_invoke_chain:
  "graph_invoke create_workflow env state tr =
     and_then (portfolio_analysis_node env state (tr @ [Enter ''portfolio_analysis'']))
       (\<lambda>s1 t1. and_then (budget_analysis_node env s1 (t1 @ [Enter ''budget_analysis'']))
         (\<lambda>s2 t2. and_then (market_research_node env s2 (t2 @ [Enter ''market_research'']))
           (\<lambda>s3 t3. and_then (risk_assessment_node env s3 (t3 @ [Enter ''risk_assessment'']))
             (\<lambda>s4 t4. coordinator_node env s4 (t4 @ [Enter ''coordinator''])))))"
proof -
  have fuel: "recursion_limit = Suc (Suc (Suc (Suc (Suc 20))))"
    by (simp add: recursion_limit_def)
  have ends: "''budget_analysis'' \<noteq> END" "''market_research'' \<noteq> END"
    "''risk_assessment'' \<noteq> END" "''coordinator'' \<noteq> END"
    by (simp_all add: END_def)
  have last_step: "and_then r (\<lambda>s t. (Inr s, t)) = r" for r :: "FinanceState outcome"
    by (simp add: and_then_def split: prod.splits sum.splits)
  have known:
    "map_of (nodes create_workflow) ''portfolio_analysis'' = Some portfolio_analysis_node"
    "map_of (nodes create_workflow) ''budget_analysis'' = Some budget_analysis_node"
    "map_of (nodes create_workflow) ''market_research'' = Some market_research_node"
    "map_of (nodes create_workflow) ''risk_assessment'' = Some risk_assessment_node"
    "map_of (nodes create_workflow) ''coordinator'' = Some coordinator_node"
    by (simp_all add: create_workflow_nodes)
  have step5: "run_from (Suc n) create_workflow env ''coordinator'' s t =
      coordinator_node env s (t @ [Enter ''coordinator''])" for n s t
    by (simp add: run_from_Suc_known [OF known(5) create_workflow_successors(5)]
        last_step del: run_from.simps)
  have step4: "run_from (Suc (Suc n)) create_workflow env ''risk_assessment'' s t =
      and_then (risk_assessment_node env s (t @ [Enter ''risk_assessment'']))
        (\<lambda>s4 t4. coordinator_node env s4 (t4 @ [Enter ''coordinator'']))" for n s t
    by (simp only: run_from_Suc_known [OF known(4) create_workflow_successors(4)]
        ends if_False step5)
  have step3: "run_from (Suc (Suc (Suc n))) create_workflow env ''market_research'' s t =
      and_then (market_research_node env s (t @ [Enter ''market_research'']))
        (\<lambda>s3 t3. and_then (risk_assessment_node env s3 (t3 @ [Enter ''risk_assessment'']))
          (\<lambda>s4 t4. coordinator_node env s4 (t4 @ [Enter ''coordinator''])))" for n s t
    by (simp only: run_from_Suc_known [OF known(3) create_workflow_successors(3)]
        ends if_False step4)
  have step2: "run_from (Suc (Suc (Suc (Suc n)))) create_workflow env ''budget_analysis'' s t =
      and_then (budget_analysis_node env s (t @ [Enter ''budget_analysis'']))
        (\<lambda>s2 t2. and_then (market_research_node env s2 (t2 @ [Enter ''market_research'']))
          (\<lambda>s3 t3. and_then (risk_assessment_node env s3 (t3 @ [Enter ''risk_assessment'']))
            (\<lambda>s4 t4. coordinator_node env s4 (t4 @ [Enter ''coordinator'']))))" for n s t
    by (simp only: run_from_Suc_known [OF known(2) create_workflow_successors(2)]
        ends if_False step3)
  show ?thesis
    unfolding graph_invoke_def create_workflow_entry option.case fuel
    by (simp only: run_from_Suc_known [OF known(1) create_workflow_successors(1)]
        ends if_False step2)
qed

subsection \<open>What one node does\<close>

lemma specialist_node_eq:
  assumes "state ''query'' = Some q"
  shows "specialist_node a t p k env state tr =
     (case agent_invoke env tr a t (p @ q) of
        Inl e \<Rightarrow> (Inl e, tr @ [AgentCall a t (p @ q) (Inl e)])
      | Inr resp \<Rightarrow>
          if messages resp = [] then (Inl IndexError, tr @ [AgentCall a t (p @ q) (Inr resp)])
          else (Inr (state(k \<mapsto> content (last (messages resp)))),
                tr @ [AgentCall a t (p @ q) (Inr resp), Write k (content (last (messages resp)))]))"
  using assms
  by (simp add: specialist_node_def getitem_def last_item_def Let_def split: sum.splits)

lemma coordinator_node_eq:
  assumes "state ''query'' = Some q"
  shows "coordinator_node env state tr =
     (let prompt = render_prompt q
                 (dict_get state ''portfolio_analysis'' ''N/A'')
                 (dict_get state ''budget_analysis'' ''N/A'')
                 (dict_get state ''market_data'' ''N/A'')
                 (dict_get state ''risk_assessment'' ''N/A'')
      in case llm_invoke env tr prompt of
        Inl e \<Rightarrow> (Inl e, tr @ [LlmCall prompt (Inl e)])
      | Inr m \<Rightarrow> (Inr (state(''final_recommendation'' \<mapsto> content m)),
            tr @ [LlmCall prompt (Inr m), Write ''final_recommendation'' (content m)]))"
  using assms
  by (simp add: coordinator_node_def coordinator_prompt_def getitem_def Let_def split: sum.splits)

subsection \<open>What one run does\<close>

lemma new_events_append [simp]: "new_events tr (tr @ es) = es"
  by (simp add: new_events_def)

lemma and_then_simps [simp]:
  "and_then (Inl e, tr) k = (Inl e, tr)"
  "and_then (Inr s, tr) k = k s tr"
  by (simp_all add: and_then_def)

lemma graph_invoke_unfold:
  assumes "state ''query'' = Some q"
  shows "graph_invoke create_workflow env state tr =
   (let i1 = ''Analyze this request: '' @ q;
        t1 = tr @ [Enter ''portfolio_analysis'']
    in case agent_invoke env t1 portfolio_agent ''portfolio_agent'' i1 of
      Inl e \<Rightarrow> (Inl e, t1 @ [AgentCall portfolio_agent ''portfolio_agent'' i1 (Inl e)])
    | Inr x1 \<Rightarrow>
      if messages x1 = [] then
        (Inl IndexError, t1 @ [AgentCall portfolio_agent ''portfolio_agent'' i1 (Inr x1)])
      else
   (let p = content (last (messages x1));
        t2 = t1 @ [AgentCall portfolio_agent ''portfolio_agent'' i1 (Inr x1),
                   Write ''portfolio_analysis'' p, Enter ''budget_analysis'']
    in case agent_invoke env t2 budget_agent ''budget_agent'' i1 of
      Inl e \<Rightarrow> (Inl e, t2 @ [AgentCall budget_agent ''budget_agent'' i1 (Inl e)])
    | Inr x2 \<Rightarrow>
      if messages x2 = [] then
        (Inl IndexError, t2 @ [AgentCall budget_agent ''budget_agent'' i1 (Inr x2)])
      else
   (let b = content (last (messages x2));
        i3 = ''Research this request: '' @ q;
        t3 = t2 @ [AgentCall budget_agent ''budget_agent'' i1 (Inr x2),
                   Write ''budget_analysis'' b, Enter ''market_research'']
    in case agent_invoke env t3 market_research_agent ''market_agent'' i3 of
      Inl e \<Rightarrow> (Inl e, t3 @ [AgentCall market_research_agent ''market_agent'' i3 (Inl e)])
    | Inr x3 \<Rightarrow>
      if messages x3 = [] then
        (Inl IndexError, t3 @ [AgentCall market_research_agent ''market_agent'' i3 (Inr x3)])
      else
   (let m = content (last (messages x3));
        i4 = ''Assess risks for: '' @ q;
        t4 = t3 @ [AgentCall market_research_agent ''market_agent'' i3 (Inr x3),
                   Write ''market_data'' m, Enter ''risk_assessment'']
    in case agent_invoke env t4 risk_assessment_agent ''risk_agent'' i4 of
      Inl e \<Rightarrow> (Inl e, t4 @ [AgentCall risk_assessment_agent ''risk_agent'' i4 (Inl e)])
    | Inr x4 \<Rightarrow>
      if messages x4 = [] then
        (Inl IndexError, t4 @ [AgentCall risk_assessment_agent ''risk_agent'' i4 (Inr x4)])
      else
   (let r = content (last (messages x4));
        prompt = render_prompt q p b m r;
        t5 = t4 @ [AgentCall risk_assessment_agent ''risk_agent'' i4 (Inr x4),
                   Write ''risk_assessment'' r, Enter ''coordinator'']
    in case llm_invoke env t5 prompt of
      Inl e \<Rightarrow> (Inl e, t5 @ [LlmCall prompt (Inl e)])
    | Inr y \<Rightarrow>
        (Inr (state(''portfolio_analysis'' \<mapsto> p, ''budget_analysis'' \<mapsto> b,
                ''market_data'' \<mapsto> m, ''risk_assessment'' \<mapsto> r,
                ''final_recommendation'' \<mapsto> content y)),
         t5 @ [LlmCall prompt (Inr y), Write ''final_recommendation'' (content y)]))))))"
  using assms
  by (simp add: graph_invoke_chain portfolio_analysis_node_def budget_analysis_node_def
      market_research_node_def risk_assessment_node_def specialist_node_eq
      coordinator_node_eq dict_get_def Let_def split: sum.splits)

lemma initial_state_query: "initial_state q ''query'' = Some q"
  by (simp add: initial_state_def)

lemmas run_unfold =
  get_financial_advice_def graph_invoke_unfold [of "initial_state q" q, OF initial_state_query]
  Let_def getitem_def for q

text \<open>
  Every run is one of ten: a specialist raises, a specialist returns no message, the
  language model raises, or all five stages complete.
\<close>

lemma run_disj:
  fixes env q tr
  defines "R \<equiv> get_financial_advice env q tr"
    and "txt \<equiv> \<lambda>x. content (last (messages x))"
    and "A1 \<equiv> AgentCall portfolio_agent ''portfolio_agent'' (''Analyze this request: '' @ q)"
    and "A2 \<equiv> AgentCall budget_agent ''budget_agent'' (''Analyze this request: '' @ q)"
    and "A3 \<equiv> AgentCall market_research_agent ''market_agent'' (''Research this request: '' @ q)"
    and "A4 \<equiv> AgentCall risk_assessment_agent ''risk_agent'' (''Assess risks for: '' @ q)"
  defines "S1 \<equiv> \<lambda>x. [Enter ''portfolio_analysis'', A1 (Inr x), Write ''portfolio_analysis'' (txt x)]"
    and "S2 \<equiv> \<lambda>x. [Enter ''budget_analysis'', A2 (Inr x), Write ''budget_analysis'' (txt x)]"
    and "S3 \<equiv> \<lambda>x. [Enter ''market_research'', A3 (Inr x), Write ''market_data'' (txt x)]"
    and "S4 \<equiv> \<lambda>x. [Enter ''risk_assessment'', A4 (Inr x), Write ''risk_assessment'' (txt x)]"
  shows
   "(\<exists>e. R = (Inl e, tr @ [Enter ''portfolio_analysis'', A1 (Inl e)]))
  \<or> (\<exists>x. messages x = [] \<and> R = (Inl IndexError, tr @ [Enter ''portfolio_analysis'', A1 (Inr x)]))
  \<or> (\<exists>x1 e. messages x1 \<noteq> [] \<and>
        R = (Inl e, tr @ S1 x1 @ [Enter ''budget_analysis'', A2 (Inl e)]))
  \<or> (\<exists>x1 x. messages x1 \<noteq> [] \<and> messages x = [] \<and>
        R = (Inl IndexError, tr @ S1 x1 @ [Enter ''budget_analysis'', A2 (Inr x)]))
  \<or> (\<exists>x1 x2 e. messages x1 \<noteq> [] \<and> messages x2 \<noteq> [] \<and>
        R = (Inl e, tr @ S1 x1 @ S2 x2 @ [Enter ''market_research'', A3 (Inl e)]))
  \<or> (\<exists>x1 x2 x. messages x1 \<noteq> [] \<and> messages x2 \<noteq> [] \<and> messages x = [] \<and>
        R = (Inl IndexError, tr @ S1 x1 @ S2 x2 @ [Enter ''market_research'', A3 (Inr x)]))
  \<or> (\<exists>x1 x2 x3 e. messages x1 \<noteq> [] \<and> messages x2 \<noteq> [] \<and> messages x3 \<noteq> [] \<and>
        R = (Inl e, tr @ S1 x1 @ S2 x2 @ S3 x3 @ [Enter ''risk_assessment'', A4 (Inl e)]))
  \<or> (\<exists>x1 x2 x3 x. messages x1 \<noteq> [] \<and> messages x2 \<noteq> [] \<and> messages x3 \<noteq> [] \<and>
        messages x = [] \<and>
        R = (Inl IndexError, tr @ S1 x1 @ S2 x2 @ S3 x3 @ [Enter ''risk_assessment'', A4 (Inr x)]))
  \<or> (\<exists>x1 x2 x3 x4 e. messages x1 \<noteq> [] \<and> messages x2 \<noteq> [] \<and> messages x3 \<noteq> [] \<and>
        messages x4 \<noteq> [] \<and>
        R = (Inl e, tr @ S1 x1 @ S2 x2 @ S3 x3 @ S4 x4 @
          [Enter ''coordinator'',
           LlmCall (render_prompt q (txt x1) (txt x2) (txt x3) (txt x4)) (Inl e)]))
  \<or> (\<exists>x1 x2 x3 x4 y. messages x1 \<noteq> [] \<and> messages x2 \<noteq> [] \<and> messages x3 \<noteq> [] \<and>
        messages x4 \<noteq> [] \<and>
        R = (Inr (content y), tr @ S1 x1 @ S2 x2 @ S3 x3 @ S4 x4 @
          [Enter ''coordinator'',
           LlmCall (render_prompt q (txt x1) (txt x2) (txt x3) (txt x4)) (Inr y),
           Write ''final_recommendation'' (content y)]))"
  unfolding assms
  by (simp add: run_unfold split: sum.splits)

lemma new_events_Nil [simp]: "new_events [] es = es"
  by (simp add: new_events_def)

subsection \<open>The runs of the stand-ins\<close>

lemma stub_run:
  "get_financial_advice stub_env q tr =
     (Inr ''ADVICE'',
      tr @ [Enter ''portfolio_analysis'',
            AgentCall portfolio_agent ''portfolio_agent'' (''Analyze this request: '' @ q)
              (Inr (Response [HumanMessage (''Analyze this request: '' @ q), AIMessage ''P''])),
            Write ''portfolio_analysis'' ''P'',
            Enter ''budget_analysis'',
            AgentCall budget_agent ''budget_agent'' (''Analyze this request: '' @ q)
              (Inr (Response [HumanMessage (''Analyze this request: '' @ q), AIMessage ''B''])),
            Write ''budget_analysis'' ''B'',
            Enter ''market_research'',
            AgentCall market_research_agent ''market_agent'' (''Research this request: '' @ q)
              (Inr (Response [HumanMessage (''Research this request: '' @ q), AIMessage ''M''])),
            Write ''market_data'' ''M'',
            Enter ''risk_assessment'',
            AgentCall risk_assessment_agent ''risk_agent'' (''Assess risks for: '' @ q)
              (Inr (Response [HumanMessage (''Assess risks for: '' @ q), AIMessage ''R''])),
            Write ''risk_assessment'' ''R'',
            Enter ''coordinator'',
            LlmCall (render_prompt q ''P'' ''B'' ''M'' ''R'') (Inr (AIMessage ''ADVICE'')),
            Write ''final_recommendation'' ''ADVICE''])"
  by (simp add: run_unfold stub_env_def)

lemma raising_run:
  "get_financial_advice raising_env q tr =
     (Inl (External ''timeout''),
      tr @ [Enter ''portfolio_analysis'',
            AgentCall portfolio_agent ''portfolio_agent'' (''Analyze this request: '' @ q)
              (Inr (Response [HumanMessage (''Analyze this request: '' @ q), AIMessage ''P''])),
            Write ''portfolio_analysis'' ''P'',
            Enter ''budget_analysis'',
            AgentCall budget_agent ''budget_agent'' (''Analyze this request: '' @ q)
              (Inr (Response [HumanMessage (''Analyze this request: '' @ q), AIMessage ''B''])),
            Write ''budget_analysis'' ''B'',
            Enter ''market_research'',
            AgentCall market_research_agent ''market_agent'' (''Research this request: '' @ q)
              (Inl (External ''timeout''))])"
  by (simp add: run_unfold raising_env_def stub_env_def)

lemma silent_run:
  "get_financial_advice silent_env q tr =
     (Inl IndexError,
      tr @ [Enter ''portfolio_analysis'',
            AgentCall portfolio_agent ''portfolio_agent'' (''Analyze this request: '' @ q)
              (Inr (Response [HumanMessage (''Analyze this request: '' @ q), AIMessage ''P''])),
            Write ''portfolio_analysis'' ''P'',
            Enter ''budget_analysis'',
            AgentCall budget_agent ''budget_agent'' (''Analyze this request: '' @ q)
              (Inr (Response []))])"
  by (simp add: run_unfold silent_env_def stub_env_def)

section \<open>The claims\<close>



text \<open>
  C4. If a call to a specialist agent raises \<open>e\<close>, the run ends with that same exception
  \<open>e\<close> instead of a result, the language model is not called, the coordinator is not
  entered and no final recommendation is assigned.
\<close>

theorem stage_failure_aborts_run:
  assumes "AgentCall a t i (Inl e) \<in> set (new_events tr (snd (get_financial_advice env q tr)))"
  shows "fst (get_financial_advice env q tr) = Inl e
       \<and> llm_calls (new_events tr (snd (get_financial_advice env q tr))) = []
       \<and> ''coordinator'' \<notin> set (entered (new_events tr (snd (get_financial_advice env q tr))))
       \<and> ''final_recommendation'' \<notin> set (written_keys (new_events tr (snd (get_financial_advice env q tr))))"
  using assms run_disj [of env q tr]
  by (elim disjE exE conjE; simp)

theorem stage_failure_aborts_run_witness:
  "AgentCall market_research_agent ''market_agent'' ''Research this request: rates''
       (Inl (External ''timeout''))
     \<in> set (new_events [] (snd (get_financial_advice raising_env ''rates'' [])))
   \<and> fst (get_financial_advice raising_env ''rates'' []) = Inl (External ''timeout'')
   \<and> llm_calls (new_events [] (snd (get_financial_advice raising_env ''rates'' []))) = []"
proof -
  have called: "AgentCall market_research_agent ''market_agent'' ''Research this request: rates''
       (Inl (External ''timeout''))
     \<in> set (new_events [] (snd (get_financial_advice raising_env ''rates'' [])))"
    by (simp add: raising_run)
  from stage_failure_aborts_run [OF called] called show ?thesis by blast
qed

text \<open>
  C2. In every run each stage assigns at most one key of the state, and only its own:
  the portfolio node \<open>portfolio_analysis\<close>, the budget node \<open>budget_analysis\<close>, the
  market research node \<open>market_data\<close>, the risk node \<open>risk_assessment\<close> and the
  coordinator \<open>final_recommendation\<close>. No key is assigned twice in a run, and when the
  run returns a result every stage has assigned exactly its own key.
\<close>

theorem each_stage_writes_own_slot:
  "slots_written ''portfolio_analysis'' (new_events tr (snd (get_financial_advice env q tr)))
     \<in> {[], [''portfolio_analysis'']}
   \<and> slots_written ''budget_analysis'' (new_events tr (snd (get_financial_advice env q tr)))
     \<in> {[], [''budget_analysis'']}
   \<and> slots_written ''market_research'' (new_events tr (snd (get_financial_advice env q tr)))
     \<in> {[], [''market_data'']}
   \<and> slots_written ''risk_assessment'' (new_events tr (snd (get_financial_advice env q tr)))
     \<in> {[], [''risk_assessment'']}
   \<and> slots_written ''coordinator'' (new_events tr (snd (get_financial_advice env q tr)))
     \<in> {[], [''final_recommendation'']}
   \<and> distinct (written_keys (new_events tr (snd (get_financial_advice env q tr))))
   \<and> ((\<exists>r. fst (get_financial_advice env q tr) = Inr r) \<longrightarrow>
        slots_written ''portfolio_analysis'' (new_events tr (snd (get_financial_advice env q tr)))
          = [''portfolio_analysis'']
      \<and> slots_written ''budget_analysis'' (new_events tr (snd (get_financial_advice env q tr)))
          = [''budget_analysis'']
      \<and> slots_written ''market_research'' (new_events tr (snd (get_financial_advice env q tr)))
          = [''market_data'']
      \<and> slots_written ''risk_assessment'' (new_events tr (snd (get_financial_advice env q tr)))
          = [''risk_assessment'']
      \<and> slots_written ''coordinator'' (new_events tr (snd (get_financial_advice env q tr)))
          = [''final_recommendation''])"
  using run_disj [of env q tr]
  by (elim disjE exE conjE; simp add: slots_written_def)

theorem each_stage_writes_own_slot_witness:
  "fst (get_financial_advice stub_env ''budget'' []) = Inr ''ADVICE''
   \<and> slots_written ''market_research''
        (new_events [] (snd (get_financial_advice stub_env ''budget'' []))) = [''market_data'']
   \<and> slots_written ''coordinator''
        (new_events [] (snd (get_financial_advice stub_env ''budget'' [])))
        = [''final_recommendation'']"
proof -
  have ok: "\<exists>r. fst (get_financial_advice stub_env ''budget'' []) = Inr r"
    by (simp add: stub_run)
  have res: "fst (get_financial_advice stub_env ''budget'' []) = Inr ''ADVICE''"
    by (simp add: stub_run)
  from each_stage_writes_own_slot [of "[]" stub_env "''budget''"] ok res
  show ?thesis by blast
qed



text \<open>
  C7. When an agent returns a response with messages, the content of the last message
  is what the stage assigns to its key. When the response has no message, the
  subscript raises IndexError: the run ends there with that exception and the
  language model is not called.
\<close>

theorem last_message_is_stage_result:
  assumes "AgentCall a t i (Inr resp)
             \<in> set (new_events tr (snd (get_financial_advice env q tr)))"
  shows "(messages resp \<noteq> [] \<longrightarrow>
            Write (case a of portfolio_agent \<Rightarrow> ''portfolio_analysis''
                   | budget_agent \<Rightarrow> ''budget_analysis''
                   | market_research_agent \<Rightarrow> ''market_data''
                   | risk_assessment_agent \<Rightarrow> ''risk_assessment'')
                  (content (last (messages resp)))
              \<in> set (new_events tr (snd (get_financial_advice env q tr))))
       \<and> (messages resp = [] \<longrightarrow>
            fst (get_financial_advice env q tr) = Inl IndexError
          \<and> llm_calls (new_events tr (snd (get_financial_advice env q tr))) = []
          \<and> last (new_events tr (snd (get_financial_advice env q tr))) = AgentCall a t i (Inr resp))"
  using assms run_disj [of env q tr]
  by (elim disjE exE conjE; auto)

theorem last_message_is_stage_result_witness:
  "(AgentCall risk_assessment_agent ''risk_agent'' ''Assess risks for: bonds''
       (Inr (Response [HumanMessage ''Assess risks for: bonds'', AIMessage ''R'']))
      \<in> set (new_events [] (snd (get_financial_advice stub_env ''bonds'' [])))
    \<and> Write ''risk_assessment'' ''R''
      \<in> set (new_events [] (snd (get_financial_advice stub_env ''bonds'' []))))
   \<and> (AgentCall budget_agent ''budget_agent'' ''Analyze this request: bonds'' (Inr (Response []))
      \<in> set (new_events [] (snd (get_financial_advice silent_env ''bonds'' [])))
    \<and> fst (get_financial_advice silent_env ''bonds'' []) = Inl IndexError
    \<and> llm_calls (new_events [] (snd (get_financial_advice silent_env ''bonds'' []))) = [])"
proof -
  have full: "AgentCall risk_assessment_agent ''risk_agent'' ''Assess risks for: bonds''
       (Inr (Response [HumanMessage ''Assess risks for: bonds'', AIMessage ''R'']))
      \<in> set (new_events [] (snd (get_financial_advice stub_env ''bonds'' [])))"
    by (simp add: stub_run)
  have none: "AgentCall budget_agent ''budget_agent'' ''Analyze this request: bonds''
       (Inr (Response []))
      \<in> set (new_events [] (snd (get_financial_advice silent_env ''bonds'' [])))"
    by (simp add: silent_run)
  from last_message_is_stage_result [OF full]
  have w: "Write ''risk_assessment'' ''R''
      \<in> set (new_events [] (snd (get_financial_advice stub_env ''bonds'' [])))"
    by simp
  from last_message_is_stage_result [OF none]
  have a: "fst (get_financial_advice silent_env ''bonds'' []) = Inl IndexError
    \<and> llm_calls (new_events [] (snd (get_financial_advice silent_env ''bonds'' []))) = []"
    by simp
  from full none w a show ?thesis by blast
qed

text \<open>A run only appends to the log, and the thread id of a call follows the agent.\<close>

lemma run_extends: "\<exists>es. snd (get_financial_advice env q tr) = tr @ es"
  using run_disj [of env q tr]
  by (elim disjE exE conjE; simp)

lemma run_thread_ids:
  assumes "AgentCall a t i r \<in> set (new_events tr (snd (get_financial_advice env q tr)))"
  shows "t = (case a of portfolio_agent \<Rightarrow> ''portfolio_agent''
              | budget_agent \<Rightarrow> ''budget_agent''
              | market_research_agent \<Rightarrow> ''market_agent''
              | risk_assessment_agent \<Rightarrow> ''risk_agent'')"
  using assms run_disj [of env q tr]
  by (elim disjE exE conjE; auto)

text \<open>
  C8. Take two runs one after the other (any queries, any behaviour of the services).
  Among all the agent calls of both runs, two calls carry the same thread id exactly
  when they address the same agent: the same role always gets the same thread id, in
  the same run and across runs, and two different roles never share one.
\<close>

theorem thread_id_per_role:
  assumes "tr1 = snd (get_financial_advice env1 q1 tr0)"
    and "tr2 = snd (get_financial_advice env2 q2 tr1)"
    and "AgentCall a t i r \<in> set (new_events tr0 tr2)"
    and "AgentCall a' t' i' r' \<in> set (new_events tr0 tr2)"
  shows "(a = a') = (t = t')"
proof -
  obtain es1 where e1: "tr1 = tr0 @ es1"
    using run_extends [of env1 q1 tr0] assms(1) by auto
  obtain es2 where e2: "tr2 = tr1 @ es2"
    using run_extends [of env2 q2 tr1] assms(2) by auto
  have n1: "new_events tr0 tr1 = es1" by (simp add: e1)
  have n2: "new_events tr1 tr2 = es2" by (simp add: e2)
  have all: "new_events tr0 tr2 = es1 @ es2" by (simp add: e1 e2)
  have canon: "t'' = (case a'' of portfolio_agent \<Rightarrow> ''portfolio_agent''
              | budget_agent \<Rightarrow> ''budget_agent''
              | market_research_agent \<Rightarrow> ''market_agent''
              | risk_assessment_agent \<Rightarrow> ''risk_agent'')"
    if "AgentCall a'' t'' i'' r'' \<in> set (es1 @ es2)" for a'' t'' i'' r''
  proof -
    from that have "AgentCall a'' t'' i'' r'' \<in> set es1 \<or> AgentCall a'' t'' i'' r'' \<in> set es2"
      by simp
    then show ?thesis
    proof
      assume "AgentCall a'' t'' i'' r'' \<in> set es1"
      then show ?thesis
        using run_thread_ids [of a'' t'' i'' r'' tr0 env1 q1] assms(1) n1 by simp
    next
      assume "AgentCall a'' t'' i'' r'' \<in> set es2"
      then show ?thesis
        using run_thread_ids [of a'' t'' i'' r'' tr1 env2 q2] assms(2) n2 by simp
    qed
  qed
  from canon [of a t i r] canon [of a' t' i' r'] assms(3,4) all
  show ?thesis by (cases a; cases a'; simp)
qed

theorem thread_id_per_role_witness:
  "AgentCall budget_agent ''budget_agent'' ''Analyze this request: first''
       (Inr (Response [HumanMessage ''Analyze this request: first'', AIMessage ''B'']))
     \<in> set (new_events [] (snd (get_financial_advice raising_env ''second''
              (snd (get_financial_advice stub_env ''first'' [])))))
   \<and> AgentCall budget_agent ''budget_agent'' ''Analyze this request: second''
       (Inr (Response [HumanMessage ''Analyze this request: second'', AIMessage ''B'']))
     \<in> set (new_events [] (snd (get_financial_advice raising_env ''second''
              (snd (get_financial_advice stub_env ''first'' [])))))
   \<and> ((budget_agent = budget_agent) = (''budget_agent'' = ''budget_agent''))"
proof -
  have c1: "AgentCall budget_agent ''budget_agent'' ''Analyze this request: first''
       (Inr (Response [HumanMessage ''Analyze this request: first'', AIMessage ''B'']))
     \<in> set (new_events [] (snd (get_financial_advice raising_env ''second''
              (snd (get_financial_advice stub_env ''first'' [])))))"
    by (simp add: stub_run raising_run)
  have c2: "AgentCall budget_agent ''budget_agent'' ''Analyze this request: second''
       (Inr (Response [HumanMessage ''Analyze this request: second'', AIMessage ''B'']))
     \<in> set (new_events [] (snd (get_financial_advice raising_env ''second''
              (snd (get_financial_advice stub_env ''first'' [])))))"
    by (simp add: stub_run raising_run)
  from thread_id_per_role [OF refl refl c1 c2] c1 c2 show ?thesis by blast
qed

text \<open>
  C9. Every instruction sent to an agent is the query behind that stage's fixed prefix:
  \<open>Analyze this request: \<close> for the portfolio and the budget agent,
  \<open>Research this request: \<close> for the market research agent and \<open>Assess risks for: \<close>
  for the risk agent. A run that returns a result has sent exactly these four.
\<close>

theorem instruction_prefix_per_stage:
  "(\<forall>a t i r. AgentCall a t i r \<in> set (new_events tr (snd (get_financial_advice env q tr)))
       \<longrightarrow> i = (case a of portfolio_agent \<Rightarrow> ''Analyze this request: ''
                   | budget_agent \<Rightarrow> ''Analyze this request: ''
                   | market_research_agent \<Rightarrow> ''Research this request: ''
                   | risk_assessment_agent \<Rightarrow> ''Assess risks for: '') @ q)
   \<and> ((\<exists>r. fst (get_financial_advice env q tr) = Inr r) \<longrightarrow>
        map (\<lambda>(a, t, i). (a, i))
            (agent_calls (new_events tr (snd (get_financial_advice env q tr))))
        = [(portfolio_agent, ''Analyze this request: '' @ q),
           (budget_agent, ''Analyze this request: '' @ q),
           (market_research_agent, ''Research this request: '' @ q),
           (risk_assessment_agent, ''Assess risks for: '' @ q)])"
  using run_disj [of env q tr]
  by (elim disjE exE conjE; auto)

theorem instruction_prefix_per_stage_witness:
  "fst (get_financial_advice stub_env ''gold'' []) = Inr ''ADVICE''
   \<and> map (\<lambda>(a, t, i). (a, i))
        (agent_calls (new_events [] (snd (get_financial_advice stub_env ''gold'' []))))
      = [(portfolio_agent, ''Analyze this request: '' @ ''gold''),
         (budget_agent, ''Analyze this request: '' @ ''gold''),
         (market_research_agent, ''Research this request: '' @ ''gold''),
         (risk_assessment_agent, ''Assess risks for: '' @ ''gold'')]"
proof -
  have res: "fst (get_financial_advice stub_env ''gold'' []) = Inr ''ADVICE''"
    by (simp add: stub_run)
  from instruction_prefix_per_stage [of "[]" stub_env "''gold''"] res
  show ?thesis by blast
qed

text \<open>
  C3. For every state that holds the query and the four analyses, the coordinator sends
  the language model one prompt: the fixed text with the query and the four values
  embedded as they are, whole, in the order query, portfolio, budget, market, risk.
\<close>

theorem synthesizer_prompt_embeds_all:
  assumes "state ''query'' = Some q"
    and "state ''portfolio_analysis'' = Some p"
    and "state ''budget_analysis'' = Some b"
    and "state ''market_data'' = Some m"
    and "state ''risk_assessment'' = Some r"
  shows "map fst (llm_calls (new_events tr (snd (coordinator_node env state tr)))) =
    [''\<newline>        As a senior financial advisor, synthesize the following analyses into a comprehensive recommendation:\<newline>        \<newline>        Original Query: ''
     @ q @ ''\<newline>        \<newline>        Portfolio Analysis: ''
     @ p @ ''\<newline>        Budget Analysis: ''
     @ b @ ''\<newline>        Market Research: ''
     @ m @ ''\<newline>        Risk Assessment: ''
     @ r @ ''\<newline>        \<newline>        Provide a clear, actionable financial recommendation with:\<newline>        1. Summary of key findings\<newline>        2. Specific action steps\<newline>        3. Risk considerations\<newline>        4. Timeline for implementation\<newline>        '']"
  using assms
  by (simp add: coordinator_node_eq [of state q] dict_get_def render_prompt_def Let_def
      split: sum.splits)

theorem synthesizer_prompt_embeds_all_witness:
  "map fst (llm_calls (new_events [] (snd (coordinator_node stub_env
      [''query'' \<mapsto> ''Q'', ''portfolio_analysis'' \<mapsto> ''P'', ''budget_analysis'' \<mapsto> ''B'',
       ''market_data'' \<mapsto> ''M'', ''risk_assessment'' \<mapsto> ''R''] [])))) =
    [''\<newline>        As a senior financial advisor, synthesize the following analyses into a comprehensive recommendation:\<newline>        \<newline>        Original Query: Q\<newline>        \<newline>        Portfolio Analysis: P\<newline>        Budget Analysis: B\<newline>        Market Research: M\<newline>        Risk Assessment: R\<newline>        \<newline>        Provide a clear, actionable financial recommendation with:\<newline>        1. Summary of key findings\<newline>        2. Specific action steps\<newline>        3. Risk considerations\<newline>        4. Timeline for implementation\<newline>        '']"
  using synthesizer_prompt_embeds_all [of
      "[''query'' \<mapsto> ''Q'', ''portfolio_analysis'' \<mapsto> ''P'', ''budget_analysis'' \<mapsto> ''B'',
        ''market_data'' \<mapsto> ''M'', ''risk_assessment'' \<mapsto> ''R'']"
      "''Q''" "''P''" "''B''" "''M''" "''R''" "[]" stub_env]
  by simp

text \<open>
  C6, as stated, fails. The state that \<open>get_financial_advice\<close> builds holds every slot
  with the empty string; the coordinator renders such a slot as the empty string, not as
  \<open>N/A\<close>: the prompt differs from the one with \<open>N/A\<close> in the slot.
\<close>

theorem empty_slot_not_rendered_as_sentinel:
  "initial_state ''q'' ''portfolio_analysis'' = Some ''''
   \<and> coordinator_prompt (initial_state ''q'') = Inr (render_prompt ''q'' '''' '''' '''' '''')
   \<and> coordinator_prompt (initial_state ''q'')
      \<noteq> coordinator_prompt ((initial_state ''q'')(''portfolio_analysis'' \<mapsto> ''N/A''))"
  by (simp add: coordinator_prompt_def getitem_def dict_get_def initial_state_def
      render_prompt_def)

text \<open>
  C6, amended. For every state that holds the query, the coordinator builds its prompt
  without failing, and the prompt is the fixed text with each stage slot rendered as
  follows: \<open>N/A\<close> when the key of the slot is absent from the state, and the value of
  the slot, as it is, when the key is present (the empty string is rendered as the
  empty string). This is also the one prompt the coordinator sends.
\<close>

theorem slot_rendered_as_value_or_sentinel:
  assumes "state ''query'' = Some q"
  shows "coordinator_prompt state = Inr
    (''\<newline>        As a senior financial advisor, synthesize the following analyses into a comprehensive recommendation:\<newline>        \<newline>        Original Query: ''
     @ q @ ''\<newline>        \<newline>        Portfolio Analysis: ''
     @ (case state ''portfolio_analysis'' of None \<Rightarrow> ''N/A'' | Some v \<Rightarrow> v)
     @ ''\<newline>        Budget Analysis: ''
     @ (case state ''budget_analysis'' of None \<Rightarrow> ''N/A'' | Some v \<Rightarrow> v)
     @ ''\<newline>        Market Research: ''
     @ (case state ''market_data'' of None \<Rightarrow> ''N/A'' | Some v \<Rightarrow> v)
     @ ''\<newline>        Risk Assessment: ''
     @ (case state ''risk_assessment'' of None \<Rightarrow> ''N/A'' | Some v \<Rightarrow> v)
     @ ''\<newline>        \<newline>        Provide a clear, actionable financial recommendation with:\<newline>        1. Summary of key findings\<newline>        2. Specific action steps\<newline>        3. Risk considerations\<newline>        4. Timeline for implementation\<newline>        '')
   \<and> map (Inr \<circ> fst) (llm_calls (new_events tr (snd (coordinator_node env state tr))))
       = [coordinator_prompt state]"
proof -
  have rendered: "coordinator_prompt state = Inr
    (''\<newline>        As a senior financial advisor, synthesize the following analyses into a comprehensive recommendation:\<newline>        \<newline>        Original Query: ''
     @ q @ ''\<newline>        \<newline>        Portfolio Analysis: ''
     @ (case state ''portfolio_analysis'' of None \<Rightarrow> ''N/A'' | Some v \<Rightarrow> v)
     @ ''\<newline>        Budget Analysis: ''
     @ (case state ''budget_analysis'' of None \<Rightarrow> ''N/A'' | Some v \<Rightarrow> v)
     @ ''\<newline>        Market Research: ''
     @ (case state ''market_data'' of None \<Rightarrow> ''N/A'' | Some v \<Rightarrow> v)
     @ ''\<newline>        Risk Assessment: ''
     @ (case state ''risk_assessment'' of None \<Rightarrow> ''N/A'' | Some v \<Rightarrow> v)
     @ ''\<newline>        \<newline>        Provide a clear, actionable financial recommendation with:\<newline>        1. Summary of key findings\<newline>        2. Specific action steps\<newline>        3. Risk considerations\<newline>        4. Timeline for implementation\<newline>        '')"
    using assms
    by (simp add: coordinator_prompt_def getitem_def dict_get_def render_prompt_def)
  have sent: "map (Inr \<circ> fst) (llm_calls (new_events tr (snd (coordinator_node env state tr))))
       = [coordinator_prompt state]"
    using assms
    by (simp add: coordinator_node_eq [of state q] coordinator_prompt_def getitem_def Let_def
        split: sum.splits)
  from rendered sent show ?thesis by blast
qed

theorem slot_rendered_as_value_or_sentinel_witness:
  "coordinator_prompt
     [''query'' \<mapsto> ''q'', ''portfolio_analysis'' \<mapsto> [], ''budget_analysis'' \<mapsto> ''B'']
   = Inr ''\<newline>        As a senior financial advisor, synthesize the following analyses into a comprehensive recommendation:\<newline>        \<newline>        Original Query: q\<newline>        \<newline>        Portfolio Analysis: \<newline>        Budget Analysis: B\<newline>        Market Research: N/A\<newline>        Risk Assessment: N/A\<newline>        \<newline>        Provide a clear, actionable financial recommendation with:\<newline>        1. Summary of key findings\<newline>        2. Specific action steps\<newline>        3. Risk considerations\<newline>        4. Timeline for implementation\<newline>        ''"
  using slot_rendered_as_value_or_sentinel [of
      "[''query'' \<mapsto> ''q'', ''portfolio_analysis'' \<mapsto> [], ''budget_analysis'' \<mapsto> ''B'']"
      "''q''"]
  by simp

text \<open>No node looks at \<open>user_profiles\<close>.\<close>

lemma specialist_ignores_user_profiles:
  "specialist_node a t p k env (state(''user_profiles'' := x)) tr =
     (map_sum id (\<lambda>s. s(''user_profiles'' := x)) (fst (specialist_node a t p k env state tr)),
      snd (specialist_node a t p k env state tr))"
  if "k \<noteq> ''user_profiles''"
  using that
  by (auto simp: specialist_node_def getitem_def last_item_def Let_def fun_upd_twist
      split: sum.splits option.splits)

lemma coordinator_ignores_user_profiles:
  "coordinator_node env (state(''user_profiles'' := x)) tr =
     (map_sum id (\<lambda>s. s(''user_profiles'' := x)) (fst (coordinator_node env state tr)),
      snd (coordinator_node env state tr))"
  by (auto simp: coordinator_node_def coordinator_prompt_def getitem_def dict_get_def Let_def
      fun_upd_twist split: sum.splits option.splits)

text \<open>
  C10. The initial state holds \<open>user_profiles\<close> with the empty string. No run assigns
  \<open>user_profiles\<close> or \<open>query\<close>; in the final state of a run that completes,
  \<open>user_profiles\<close> is still the empty string and \<open>query\<close> is the input. No node reads
  \<open>user_profiles\<close>: changing or removing it in the incoming state changes nothing in what
  a node does, except that the outgoing state carries the same change.
\<close>

theorem user_profiles_and_query_untouched:
  "initial_state q ''user_profiles'' = Some []
   \<and> (\<forall>final_state tr'.
        graph_invoke create_workflow env (initial_state q) tr = (Inr final_state, tr') \<longrightarrow>
          final_state ''user_profiles'' = Some [] \<and> final_state ''query'' = Some q)
   \<and> ''user_profiles'' \<notin> set (written_keys (new_events tr (snd (get_financial_advice env q tr))))
   \<and> ''query'' \<notin> set (written_keys (new_events tr (snd (get_financial_advice env q tr))))
   \<and> (\<forall>node \<in> {portfolio_analysis_node, budget_analysis_node, market_research_node,
                   risk_assessment_node, coordinator_node}.
        \<forall>state x t. node env (state(''user_profiles'' := x)) t =
          (map_sum id (\<lambda>s. s(''user_profiles'' := x)) (fst (node env state t)),
           snd (node env state t)))"
proof -
  have init: "initial_state q ''user_profiles'' = Some []"
    by (simp add: initial_state_def)
  have final: "final_state ''user_profiles'' = Some [] \<and> final_state ''query'' = Some q"
    if "graph_invoke create_workflow env (initial_state q) tr = (Inr final_state, tr')"
    for final_state tr'
    using that
    by (auto simp: graph_invoke_unfold [of "initial_state q" q, OF initial_state_query]
        Let_def init initial_state_query split: sum.splits if_splits)
  have log: "''user_profiles'' \<notin> set (written_keys (new_events tr (snd (get_financial_advice env q tr))))
     \<and> ''query'' \<notin> set (written_keys (new_events tr (snd (get_financial_advice env q tr))))"
    using run_disj [of env q tr]
    by (elim disjE exE conjE; simp)
  have unread: "\<forall>node \<in> {portfolio_analysis_node, budget_analysis_node, market_research_node,
                   risk_assessment_node, coordinator_node}.
        \<forall>state x t. node env (state(''user_profiles'' := x)) t =
          (map_sum id (\<lambda>s. s(''user_profiles'' := x)) (fst (node env state t)),
           snd (node env state t))"
    by (simp add: portfolio_analysis_node_def budget_analysis_node_def market_research_node_def
        risk_assessment_node_def specialist_ignores_user_profiles
        coordinator_ignores_user_profiles)
  from init final log unread show ?thesis by blast
qed

text \<open>The final state of the stand-in run.\<close>

lemma stub_final_state:
  "graph_invoke create_workflow stub_env (initial_state q) tr =
     (Inr ((initial_state q)(''portfolio_analysis'' \<mapsto> ''P'', ''budget_analysis'' \<mapsto> ''B'',
             ''market_data'' \<mapsto> ''M'', ''risk_assessment'' \<mapsto> ''R'',
             ''final_recommendation'' \<mapsto> ''ADVICE'')),
      snd (graph_invoke create_workflow stub_env (initial_state q) tr))"
  by (simp add: graph_invoke_unfold [of "initial_state q" q, OF initial_state_query]
      stub_env_def Let_def)

theorem user_profiles_and_query_untouched_witness:
  "fst (graph_invoke create_workflow stub_env (initial_state ''q'') []) =
       Inr ((initial_state ''q'')(''portfolio_analysis'' \<mapsto> ''P'', ''budget_analysis'' \<mapsto> ''B'',
       ''market_data'' \<mapsto> ''M'', ''risk_assessment'' \<mapsto> ''R'',
       ''final_recommendation'' \<mapsto> ''ADVICE''))
   \<and> ((initial_state ''q'')(''portfolio_analysis'' \<mapsto> ''P'', ''budget_analysis'' \<mapsto> ''B'',
       ''market_data'' \<mapsto> ''M'', ''risk_assessment'' \<mapsto> ''R'',
       ''final_recommendation'' \<mapsto> ''ADVICE'')) ''user_profiles'' = Some []
   \<and> ((initial_state ''q'')(''portfolio_analysis'' \<mapsto> ''P'', ''budget_analysis'' \<mapsto> ''B'',
       ''market_data'' \<mapsto> ''M'', ''risk_assessment'' \<mapsto> ''R'',
       ''final_recommendation'' \<mapsto> ''ADVICE'')) ''query'' = Some ''q''"
proof -
  note run = stub_final_state [of "''q''" "[]"]
  from user_profiles_and_query_untouched [of "''q''" stub_env "[]"] run
  have "((initial_state ''q'')(''portfolio_analysis'' \<mapsto> ''P'', ''budget_analysis'' \<mapsto> ''B'',
       ''market_data'' \<mapsto> ''M'', ''risk_assessment'' \<mapsto> ''R'',
       ''final_recommendation'' \<mapsto> ''ADVICE'')) ''user_profiles'' = Some []
   \<and> ((initial_state ''q'')(''portfolio_analysis'' \<mapsto> ''P'', ''budget_analysis'' \<mapsto> ''B'',
       ''market_data'' \<mapsto> ''M'', ''risk_assessment'' \<mapsto> ''R'',
       ''final_recommendation'' \<mapsto> ''ADVICE'')) ''query'' = Some ''q''"
    by blast
  with run show ?thesis by (metis fst_conv)
qed

end
